theory Spec2Isabelle
  imports Main "HOL-Library.Word"
begin

unbundle bit_operations_syntax

section \<open>Python values used by \<open>django/db/backends/utils.py\<close>\<close>

text \<open>
  Text is a list of 8-bit code points (the Latin-1 range of Python's \<open>str\<close>); \<open>len\<close> is
  \<open>length\<close>.  An argument that may be \<open>None\<close> is an \<open>option\<close>.  Every \<open>raise\<close> of the source
  or of the library functions it calls is a value \<open>Inl e\<close> of a sum type.
\<close>

datatype exn = ValueError | TypeError | IndexError | OverflowError | InvalidOperation

definition bind :: "exn + 'a \<Rightarrow> ('a \<Rightarrow> exn + 'b) \<Rightarrow> exn + 'b" where
  "bind r f = (case r of Inl e \<Rightarrow> Inl e | Inr x \<Rightarrow> f x)"

subsection \<open>\<open>str\<close> methods\<close>

definition is_space :: "char \<Rightarrow> bool" where
  \<comment> \<open>\<open>str.isspace\<close> on the code points below 256\<close>
  "is_space c = (of_char c \<in> {9, 10, 11, 12, 13, 28, 29, 30, 31, 32, 133, 160 :: nat})"

definition is_digit :: "char \<Rightarrow> bool" where
  "is_digit c = (48 \<le> (of_char c :: nat) \<and> (of_char c :: nat) \<le> 57)"

definition digit_val :: "char \<Rightarrow> nat" where
  "digit_val c = of_char c - 48"

definition digit_char :: "nat \<Rightarrow> char" where
  "digit_char d = char_of (48 + d)"

definition strip :: "string \<Rightarrow> string" where
  "strip s = rev (dropWhile is_space (rev (dropWhile is_space s)))"

text \<open>\<open>s.split(c)\<close> for a one-character separator: empty fields are kept.\<close>

fun split_on :: "char \<Rightarrow> string \<Rightarrow> string list" where
  "split_on c [] = [[]]"
| "split_on c (x # xs) =
     (if x = c then [] # split_on c xs
      else (case split_on c xs of [] \<Rightarrow> [[x]] | p # ps \<Rightarrow> (x # p) # ps))"

text \<open>\<open>s.split(c, 1)\<close>: at most one split, at the first occurrence.\<close>

definition split_on1 :: "char \<Rightarrow> string \<Rightarrow> string list" where
  "split_on1 c s =
     (if c \<in> set s then [takeWhile (\<lambda>x. x \<noteq> c) s, drop 1 (dropWhile (\<lambda>x. x \<noteq> c) s)]
      else [s])"

text \<open>\<open>s.split()\<close>: runs of whitespace separate, empty fields are dropped.\<close>

fun split_ws_aux :: "string \<Rightarrow> string \<Rightarrow> string list" where
  "split_ws_aux w [] = (if w = [] then [] else [w])"
| "split_ws_aux w (c # cs) =
     (if is_space c then (if w = [] then split_ws_aux [] cs else w # split_ws_aux [] cs)
      else split_ws_aux (w @ [c]) cs)"

definition split_ws :: "string \<Rightarrow> string list" where
  "split_ws s = split_ws_aux [] s"

text \<open>\<open>xs[i]\<close> for a literal index \<open>i \<ge> 0\<close>.\<close>

definition index :: "'a list \<Rightarrow> nat \<Rightarrow> exn + 'a" where
  "index xs i = (if i < length xs then Inr (xs ! i) else Inl IndexError)"

text \<open>\<open>xs[:k]\<close>: a negative \<open>k\<close> counts from the end.\<close>

definition slice_to :: "int \<Rightarrow> 'a list \<Rightarrow> 'a list" where
  "slice_to k xs = (if 0 \<le> k then take (nat k) xs else take (nat (int (length xs) + k)) xs)"

subsection \<open>\<open>int(text)\<close> and \<open>str(int)\<close>\<close>

definition nat_of_digits :: "string \<Rightarrow> nat" where
  "nat_of_digits ds = foldl (\<lambda>n c. 10 * n + digit_val c) 0 ds"

text \<open>
  \<open>int(s)\<close> on unicode text, as Python 2.7 converts it: surrounding whitespace (\<open>isspace\<close>) is
  dropped, one sign is allowed, then one or more decimal digits.  Python 3.3 and later keep
  the code points 28 to 31, so that text with one of them at either end is refused there,
  and Python 3.6 and later allow single underscores between digits.
\<close>

definition py_int :: "string \<Rightarrow> exn + int" where
  "py_int s =
     (case strip s of
        [] \<Rightarrow> Inl ValueError
      | c # cs \<Rightarrow>
          (let neg = (c = CHR ''-'');
               ds = (if c = CHR ''-'' \<or> c = CHR ''+'' then cs else c # cs)
           in if ds \<noteq> [] \<and> list_all is_digit ds
              then Inr ((if neg then - 1 else 1) * int (nat_of_digits ds))
              else Inl ValueError))"

fun str_nat :: "nat \<Rightarrow> string" where
  \<comment> \<open>the decimal digits of \<open>n\<close>, most significant first\<close>
  "str_nat n = (if n < 10 then [digit_char n] else str_nat (n div 10) @ [digit_char (n mod 10)])"

declare str_nat.simps [simp del]

definition str_int :: "int \<Rightarrow> string" where
  "str_int i = (if i < 0 then CHR ''-'' # str_nat (nat (- i)) else str_nat (nat i))"

subsection \<open>Floating point: \<open>float(text)\<close>, \<open>*\<close>, \<open>-\<close>, \<open>int(float)\<close> and \<open>'%.*f'\<close>\<close>

text \<open>
  A Python \<open>float\<close> is an IEEE 754 binary64 number.  A finite one is kept exactly:
  \<open>Finite s m e\<close> is \<open>m * 2 ^ e\<close>, negative when \<open>s\<close> holds.  \<open>float(text)\<close>, \<open>*\<close> and \<open>-\<close> are
  correctly rounded: the result is the binary64 number nearest to the exact value, ties to
  the even significand (53 bits, least exponent \<open>-1074\<close>, overflow to infinity from
  \<open>2 ^ 1024\<close>).
\<close>

datatype double = Finite bool nat int | Infinity bool | NaN

fun bitlen :: "nat \<Rightarrow> nat" where
  "bitlen n = (if n = 0 then 0 else Suc (bitlen (n div 2)))"

declare bitlen.simps [simp del]

definition round_half_even :: "nat \<Rightarrow> nat \<Rightarrow> nat" where
  \<comment> \<open>the integer nearest to \<open>p / q\<close>, ties to even\<close>
  "round_half_even p q =
     (let k = p div q; r = p mod q
      in if 2 * r < q then k else if q < 2 * r then k + 1 else if even k then k else k + 1)"

definition ge_pow2 :: "nat \<Rightarrow> nat \<Rightarrow> int \<Rightarrow> bool" where
  \<comment> \<open>\<open>2 ^ e \<le> p / q\<close>\<close>
  "ge_pow2 p q e = (if 0 \<le> e then q * 2 ^ nat e \<le> p else q \<le> p * 2 ^ nat (- e))"

definition to_double :: "bool \<Rightarrow> nat \<Rightarrow> nat \<Rightarrow> double" where
  \<comment> \<open>the binary64 number nearest to \<open>p / q\<close> (for \<open>q > 0\<close>), with sign \<open>s\<close>\<close>
  "to_double s p q =
     (if p = 0 then Finite s 0 0
      else
        let e0 = int (bitlen p) - int (bitlen q);
            e = (if ge_pow2 p q e0 then e0 else e0 - 1);
            x = max e (- 1022) - 52;
            m = (if 0 \<le> x then round_half_even p (q * 2 ^ nat x)
                 else round_half_even (p * 2 ^ nat (- x)) q)
        in if 971 < x \<or> (x = 971 \<and> 2 ^ 53 \<le> m) then Infinity s else Finite s m x)"

definition dyadic_to_double :: "bool \<Rightarrow> nat \<Rightarrow> int \<Rightarrow> double" where
  \<comment> \<open>the binary64 number nearest to \<open>n * 2 ^ e\<close>\<close>
  "dyadic_to_double s n e =
     (if 0 \<le> e then to_double s (n * 2 ^ nat e) 1 else to_double s n (2 ^ nat (- e)))"

text \<open>
  \<open>float('.' + ms)\<close>: after the point come one or more digits and an optional exponent
  (\<open>e\<close> or \<open>E\<close>, an optional sign, one or more digits); trailing whitespace is dropped.
  Whitespace is that of \<open>isspace\<close>, as Python 2.7 converts unicode text; the later versions
  differ as for \<open>int(s)\<close>.
\<close>

definition float_dot :: "string \<Rightarrow> exn + double" where
  "float_dot ms =
     (let t = rev (dropWhile is_space (rev ms));
          ds = takeWhile is_digit t;
          r = dropWhile is_digit t;
          n = nat_of_digits ds;
          k = length ds
      in if ds = [] then Inl ValueError
         else (case r of
                 [] \<Rightarrow> Inr (to_double False n (10 ^ k))
               | c # es \<Rightarrow>
                   (let neg = (es \<noteq> [] \<and> hd es = CHR ''-'');
                        xs = (if es \<noteq> [] \<and> (hd es = CHR ''-'' \<or> hd es = CHR ''+'')
                              then tl es else es);
                        x = nat_of_digits xs
                    in if (c = CHR ''e'' \<or> c = CHR ''E'') \<and> xs \<noteq> [] \<and> list_all is_digit xs
                       then (if neg then Inr (to_double False n (10 ^ (k + x)))
                             else if k \<le> x then Inr (to_double False (n * 10 ^ (x - k)) 1)
                             else Inr (to_double False n (10 ^ (k - x))))
                       else Inl ValueError)))"

text \<open>\<open>d * k\<close> for a float \<open>d\<close> and a positive integer \<open>k\<close> that is itself a binary64 number.\<close>

definition double_times :: "double \<Rightarrow> nat \<Rightarrow> double" where
  "double_times d k =
     (case d of
        Finite s m e \<Rightarrow> dyadic_to_double s (m * k) e
      | Infinity s \<Rightarrow> Infinity s
      | NaN \<Rightarrow> NaN)"

text \<open>\<open>a - b\<close>\<close>

definition double_minus :: "double \<Rightarrow> double \<Rightarrow> double" where
  "double_minus a b =
     (case a of
        NaN \<Rightarrow> NaN
      | Infinity s \<Rightarrow>
          (case b of NaN \<Rightarrow> NaN
                   | Infinity t \<Rightarrow> (if s = t then NaN else Infinity s)
                   | Finite t n f \<Rightarrow> Infinity s)
      | Finite s m e \<Rightarrow>
          (case b of NaN \<Rightarrow> NaN
                   | Infinity t \<Rightarrow> Infinity (\<not> t)
                   | Finite t n f \<Rightarrow>
                       (let x = min e f;
                            va = (if s then - 1 else 1) * int (m * 2 ^ nat (e - x));
                            vb = (if t then - 1 else 1) * int (n * 2 ^ nat (f - x));
                            d = va - vb
                        in if d = 0 then Finite (m = 0 \<and> n = 0 \<and> s \<and> \<not> t) 0 0
                           else dyadic_to_double (d < 0) (nat \<bar>d\<bar>) x)))"

text \<open>\<open>int(d)\<close> truncates; it raises on infinities and NaN.\<close>

definition int_of_double :: "double \<Rightarrow> exn + int" where
  "int_of_double d =
     (case d of
        Finite s m e \<Rightarrow>
          Inr ((if s then - 1 else 1) *
               (if 0 \<le> e then int (m * 2 ^ nat e) else int (m div 2 ^ nat (- e))))
      | Infinity s \<Rightarrow> Inl OverflowError
      | NaN \<Rightarrow> Inl ValueError)"

text \<open>
  \<open>'%.*f' % (n, d)\<close>: the exact value of \<open>d\<close> rounded to \<open>n\<close> decimals, ties to even, in
  positional notation.
\<close>

definition zfill :: "nat \<Rightarrow> string \<Rightarrow> string" where
  "zfill n s = replicate (n - length s) CHR ''0'' @ s"

definition format_f :: "nat \<Rightarrow> double \<Rightarrow> string" where
  "format_f n d =
     (case d of
        Finite s m e \<Rightarrow>
          (let q = (if 0 \<le> e then m * 2 ^ nat e * 10 ^ n
                    else round_half_even (m * 10 ^ n) (2 ^ nat (- e)))
           in (if s then ''-'' else []) @ str_nat (q div 10 ^ n) @
              (if n = 0 then [] else CHR ''.'' # zfill n (str_nat (q mod 10 ^ n))))
      | Infinity s \<Rightarrow> (if s then ''-inf'' else ''inf'')
      | NaN \<Rightarrow> ''nan'')"

subsection \<open>\<open>datetime.date\<close>, \<open>datetime.time\<close>, \<open>datetime.datetime\<close>\<close>

datatype tz = UTC

record date =
  year :: int
  month :: int
  day :: int

record datetime = date +
  hour :: int
  minute :: int
  second :: int
  microsecond :: int
  tzinfo :: "tz option"

record time =
  time_hour :: int
  time_minute :: int
  time_second :: int
  time_microsecond :: int
  time_tzinfo :: "tz option"

definition c_int :: "int \<Rightarrow> bool" where
  \<comment> \<open>the constructors take their numbers as C \<open>int\<close>s\<close>
  "c_int i = (- (2 ^ 31) \<le> i \<and> i < 2 ^ 31)"

definition is_leap :: "int \<Rightarrow> bool" where
  "is_leap y = (y mod 4 = 0 \<and> (y mod 100 \<noteq> 0 \<or> y mod 400 = 0))"

definition days_in_month :: "int \<Rightarrow> int \<Rightarrow> int" where
  "days_in_month y m =
     (if m = 2 then (if is_leap y then 29 else 28)
      else if m = 4 \<or> m = 6 \<or> m = 9 \<or> m = 11 then 30 else 31)"

definition valid_date :: "int \<Rightarrow> int \<Rightarrow> int \<Rightarrow> bool" where
  "valid_date y m d =
     (1 \<le> y \<and> y \<le> 9999 \<and> 1 \<le> m \<and> m \<le> 12 \<and> 1 \<le> d \<and> d \<le> days_in_month y m)"

definition valid_time :: "int \<Rightarrow> int \<Rightarrow> int \<Rightarrow> int \<Rightarrow> bool" where
  "valid_time h mi s us =
     (0 \<le> h \<and> h \<le> 23 \<and> 0 \<le> mi \<and> mi \<le> 59 \<and> 0 \<le> s \<and> s \<le> 59 \<and> 0 \<le> us \<and> us \<le> 999999)"

definition date_new :: "int \<Rightarrow> int \<Rightarrow> int \<Rightarrow> exn + date" where
  "date_new y m d =
     (if \<not> (c_int y \<and> c_int m \<and> c_int d) then Inl OverflowError
      else if valid_date y m d then Inr \<lparr>year = y, month = m, day = d\<rparr>
      else Inl ValueError)"

definition time_new :: "int \<Rightarrow> int \<Rightarrow> int \<Rightarrow> int \<Rightarrow> tz option \<Rightarrow> exn + time" where
  "time_new h mi s us z =
     (if \<not> (c_int h \<and> c_int mi \<and> c_int s \<and> c_int us) then Inl OverflowError
      else if valid_time h mi s us
      then Inr \<lparr>time_hour = h, time_minute = mi, time_second = s, time_microsecond = us,
                time_tzinfo = z\<rparr>
      else Inl ValueError)"

definition datetime_new ::
  "int \<Rightarrow> int \<Rightarrow> int \<Rightarrow> int \<Rightarrow> int \<Rightarrow> int \<Rightarrow> int \<Rightarrow> tz option \<Rightarrow> exn + datetime" where
  "datetime_new y m d h mi s us z =
     (if \<not> (c_int y \<and> c_int m \<and> c_int d \<and> c_int h \<and> c_int mi \<and> c_int s \<and> c_int us)
      then Inl OverflowError
      else if valid_date y m d \<and> valid_time h mi s us
      then Inr \<lparr>year = y, month = m, day = d, hour = h, minute = mi, second = s,
                microsecond = us, tzinfo = z\<rparr>
      else Inl ValueError)"

subsection \<open>\<open>decimal.Decimal\<close>\<close>

text \<open>
  \<open>Dec s c e\<close> is the finite decimal with coefficient \<open>c\<close> and exponent \<open>e\<close>, negative when \<open>s\<close>
  holds; \<open>DecNaN s signalling payload\<close> keeps the diagnostic digits.  The arithmetic context
  is a record of the fields used here; its traps and flags are those of the default context
  (\<open>InvalidOperation\<close> and \<open>Overflow\<close> raise, \<open>clamp = 0\<close>, \<open>capitals = 1\<close>).
\<close>

datatype decimal = Dec bool nat int | DecInfinity bool | DecNaN bool bool string




definition lower :: "char \<Rightarrow> char" where
  "lower c = (if 65 \<le> (of_char c :: nat) \<and> (of_char c :: nat) \<le> 90
              then char_of ((of_char c :: nat) + 32) else c)"

definition lstrip0 :: "string \<Rightarrow> string" where
  "lstrip0 s = dropWhile (\<lambda>c. c = CHR ''0'') s"

definition sign_str :: "bool \<Rightarrow> string" where
  "sign_str s = (if s then ''-'' else [])"

text \<open>
  \<open>Decimal(text)\<close>.  After \<open>strip()\<close> the text must match, ignoring case, an optional sign and
  then either digits with an optional point and an optional exponent (at least one digit
  before the exponent), or \<open>Inf\<close>, \<open>Infinity\<close>, \<open>NaN\<close> or \<open>sNaN\<close> with optional diagnostic
  digits.  The exponent is not bounded, as in the module \<open>decimal.py\<close>; the C implementation
  of Python 3.3 and later refuses an exponent beyond its limit of 18 digits.
\<close>

definition parse_exponent :: "string \<Rightarrow> int option" where
  \<comment> \<open>\<open>[-+]?\d+\<close>\<close>
  "parse_exponent es =
     (let xs = (if es \<noteq> [] \<and> (hd es = CHR ''-'' \<or> hd es = CHR ''+'') then tl es else es)
      in if xs \<noteq> [] \<and> list_all is_digit xs
         then Some ((if hd es = CHR ''-'' then - 1 else 1) * int (nat_of_digits xs))
         else None)"

definition Decimal :: "string \<Rightarrow> exn + decimal" where
  "Decimal text =
     (let t = strip text;
          neg = (t \<noteq> [] \<and> hd t = CHR ''-'');
          u = (if t \<noteq> [] \<and> (hd t = CHR ''-'' \<or> hd t = CHR ''+'') then tl t else t);
          ip = takeWhile is_digit u;
          r1 = dropWhile is_digit u;
          dot = (r1 \<noteq> [] \<and> hd r1 = CHR ''.'');
          fp = (if dot then takeWhile is_digit (tl r1) else []);
          r2 = (if dot then dropWhile is_digit (tl r1) else r1);
          l = map lower u;
          signalling = (l \<noteq> [] \<and> hd l = CHR ''s'');
          n = (if signalling then tl l else l)
      in if ip @ fp \<noteq> []
         then (case r2 of
                 [] \<Rightarrow> Inr (Dec neg (nat_of_digits (ip @ fp)) (- int (length fp)))
               | c # es \<Rightarrow>
                   (case parse_exponent es of
                      Some x \<Rightarrow>
                        if lower c = CHR ''e''
                        then Inr (Dec neg (nat_of_digits (ip @ fp)) (x - int (length fp)))
                        else Inl InvalidOperation
                    | None \<Rightarrow> Inl InvalidOperation))
         else if l = ''inf'' \<or> l = ''infinity'' then Inr (DecInfinity neg)
         else if take 3 n = ''nan'' \<and> list_all is_digit (drop 3 n)
         then Inr (DecNaN neg signalling (lstrip0 (drop 3 n)))
         else Inl InvalidOperation)"

text \<open>\<open>str(d)\<close>: scientific notation of the General Decimal Arithmetic specification.\<close>

definition dec_str :: "decimal \<Rightarrow> string" where
  "dec_str d =
     (case d of
        Dec s c e \<Rightarrow>
          (let ds = str_nat c;
               len = int (length ds);
               leftdigits = e + len;
               dotplace = (if e \<le> 0 \<and> - 6 < leftdigits then leftdigits else 1);
               intpart = (if dotplace \<le> 0 then ''0''
                          else if len \<le> dotplace
                          then ds @ replicate (nat (dotplace - len)) CHR ''0''
                          else take (nat dotplace) ds);
               fracpart = (if dotplace \<le> 0
                           then CHR ''.'' # replicate (nat (- dotplace)) CHR ''0'' @ ds
                           else if len \<le> dotplace then []
                           else CHR ''.'' # drop (nat dotplace) ds);
               x = leftdigits - dotplace;
               exp = (if x = 0 then []
                      else CHR ''E'' # (if x < 0 then CHR ''-'' else CHR ''+'') # str_nat (nat \<bar>x\<bar>))
           in sign_str s @ intpart @ fracpart @ exp)
      | DecInfinity s \<Rightarrow> sign_str s @ ''Infinity''
      | DecNaN s signalling diag \<Rightarrow>
          sign_str s @ (if signalling then ''sNaN'' else ''NaN'') @ diag)"






subsection \<open>\<open>hashlib.md5\<close> and \<open>force_bytes\<close>\<close>

text \<open>
  MD5 as in RFC 1321, on 32-bit words.  A byte is a \<open>char\<close>; \<open>force_bytes\<close> encodes text as
  UTF-8, so a code point from 128 on becomes two bytes.
\<close>

definition md5_K :: "32 word list" where
  "md5_K =
     [
      0xd76aa478, 0xe8c7b756, 0x242070db, 0xc1bdceee,
      0xf57c0faf, 0x4787c62a, 0xa8304613, 0xfd469501,
      0x698098d8, 0x8b44f7af, 0xffff5bb1, 0x895cd7be,
      0x6b901122, 0xfd987193, 0xa679438e, 0x49b40821,
      0xf61e2562, 0xc040b340, 0x265e5a51, 0xe9b6c7aa,
      0xd62f105d, 0x02441453, 0xd8a1e681, 0xe7d3fbc8,
      0x21e1cde6, 0xc33707d6, 0xf4d50d87, 0x455a14ed,
      0xa9e3e905, 0xfcefa3f8, 0x676f02d9, 0x8d2a4c8a,
      0xfffa3942, 0x8771f681, 0x6d9d6122, 0xfde5380c,
      0xa4beea44, 0x4bdecfa9, 0xf6bb4b60, 0xbebfbc70,
      0x289b7ec6, 0xeaa127fa, 0xd4ef3085, 0x04881d05,
      0xd9d4d039, 0xe6db99e5, 0x1fa27cf8, 0xc4ac5665,
      0xf4292244, 0x432aff97, 0xab9423a7, 0xfc93a039,
      0x655b59c3, 0x8f0ccc92, 0xffeff47d, 0x85845dd1,
      0x6fa87e4f, 0xfe2ce6e0, 0xa3014314, 0x4e0811a1,
      0xf7537e82, 0xbd3af235, 0x2ad7d2bb, 0xeb86d391]"

definition md5_S :: "nat list" where
  "md5_S =
     [
      7, 12, 17, 22, 7, 12, 17, 22, 7, 12, 17, 22, 7, 12, 17, 22,
      5, 9, 14, 20, 5, 9, 14, 20, 5, 9, 14, 20, 5, 9, 14, 20,
      4, 11, 16, 23, 4, 11, 16, 23, 4, 11, 16, 23, 4, 11, 16, 23,
      6, 10, 15, 21, 6, 10, 15, 21, 6, 10, 15, 21, 6, 10, 15, 21]"

definition le_bytes :: "nat \<Rightarrow> nat \<Rightarrow> nat list" where
  \<comment> \<open>the \<open>k\<close> low bytes of \<open>n\<close>, least significant first\<close>
  "le_bytes k n = map (\<lambda>i. (n div 256 ^ i) mod 256) [0..<k]"

definition md5_pad :: "nat list \<Rightarrow> nat list" where
  "md5_pad bs =
     bs @ [128] @ replicate ((119 - length bs mod 64) mod 64) 0 @
     le_bytes 8 ((8 * length bs) mod 2 ^ 64)"

definition word_of_le :: "nat list \<Rightarrow> 32 word" where
  "word_of_le bs = of_nat (foldr (\<lambda>b n. b + 256 * n) bs 0)"

fun chunks :: "nat \<Rightarrow> nat \<Rightarrow> 'a list \<Rightarrow> 'a list list" where
  \<comment> \<open>the first argument counts the chunks of length \<open>k\<close> to take\<close>
  "chunks 0 k xs = []"
| "chunks (Suc n) k xs = take k xs # chunks n k (drop k xs)"

definition md5_round ::
  "32 word list \<Rightarrow> 32 word \<times> 32 word \<times> 32 word \<times> 32 word \<Rightarrow> nat \<Rightarrow>
   32 word \<times> 32 word \<times> 32 word \<times> 32 word" where
  "md5_round M st i =
     (case st of (a, b, c, d) \<Rightarrow>
        (let f = (if i < 16 then (b AND c) OR (NOT b AND d)
                  else if i < 32 then (d AND b) OR (NOT d AND c)
                  else if i < 48 then b XOR c XOR d
                  else c XOR (b OR NOT d));
             g = (if i < 16 then i
                  else if i < 32 then (5 * i + 1) mod 16
                  else if i < 48 then (3 * i + 5) mod 16
                  else (7 * i) mod 16)
         in (d, b + word_rotl (md5_S ! i) (a + f + md5_K ! i + M ! g), b, c)))"

definition md5_block ::
  "32 word \<times> 32 word \<times> 32 word \<times> 32 word \<Rightarrow> nat list \<Rightarrow>
   32 word \<times> 32 word \<times> 32 word \<times> 32 word" where
  "md5_block st block =
     (case st of (a0, b0, c0, d0) \<Rightarrow>
        (case foldl (md5_round (map word_of_le (chunks 16 4 block))) st [0..<64] of
           (a, b, c, d) \<Rightarrow> (a0 + a, b0 + b, c0 + c, d0 + d)))"

definition md5_digest :: "nat list \<Rightarrow> nat list" where
  "md5_digest bs =
     (let p = md5_pad bs
      in case foldl md5_block (0x67452301, 0xefcdab89, 0x98badcfe, 0x10325476)
                (chunks (length p div 64) 64 p) of
           (a, b, c, d) \<Rightarrow> concat (map (\<lambda>w. le_bytes 4 (unat w)) [a, b, c, d]))"

definition hex_digit :: "nat \<Rightarrow> char" where
  "hex_digit n = (if n < 10 then char_of (48 + n) else char_of (87 + n))"

definition hexdigest :: "nat list \<Rightarrow> string" where
  "hexdigest bs = concat (map (\<lambda>b. [hex_digit (b div 16), hex_digit (b mod 16)]) (md5_digest bs))"

definition force_bytes :: "string \<Rightarrow> nat list" where
  "force_bytes s =
     concat (map (\<lambda>c. let n = (of_char c :: nat)
                       in if n < 128 then [n] else [192 + n div 64, 128 + n mod 64]) s)"

section \<open>Converters from database text to Python\<close>

fun map_exn :: "('a \<Rightarrow> exn + 'b) \<Rightarrow> 'a list \<Rightarrow> exn + 'b list" where
  "map_exn f [] = Inr []"
| "map_exn f (x # xs) = bind (f x) (\<lambda>y. bind (map_exn f xs) (\<lambda>ys. Inr (y # ys)))"

text \<open>The assignment \<open>a, b = xs\<close>.\<close>

definition unpack2 :: "'a list \<Rightarrow> exn + 'a \<times> 'a" where
  "unpack2 xs = (case xs of [a, b] \<Rightarrow> Inr (a, b) | _ \<Rightarrow> Inl ValueError)"

definition typecast_date :: "string option \<Rightarrow> exn + date option" where
  "typecast_date s =
     (case s of
        None \<Rightarrow> Inr None
      | Some str \<Rightarrow>
          if str = [] then Inr None
          else bind (map_exn py_int (split_on CHR ''-'' str))
                 (\<lambda>args. case args of
                            [y, m, d] \<Rightarrow> bind (date_new y m d) (\<lambda>x. Inr (Some x))
                          | _ \<Rightarrow> Inl TypeError))"

text \<open>
  The two derivations of the microseconds: \<open>int(float('.' + microseconds) * 1000000)\<close> in
  \<open>typecast_time\<close>, \<open>int((microseconds + '000000')[:6])\<close> in \<open>typecast_timestamp\<close>.
\<close>

definition time_micros :: "string \<Rightarrow> exn + int" where
  "time_micros microseconds =
     bind (float_dot microseconds) (\<lambda>f. int_of_double (double_times f 1000000))"

definition timestamp_micros :: "string \<Rightarrow> exn + int" where
  "timestamp_micros microseconds = py_int (slice_to 6 (microseconds @ ''000000''))"

definition split_seconds :: "string \<Rightarrow> exn + string \<times> string" where
  \<comment> \<open>the statement \<open>if '.' in seconds: ... else: ...\<close> of both functions\<close>
  "split_seconds seconds =
     (if CHR ''.'' \<in> set seconds then unpack2 (split_on CHR ''.'' seconds)
      else Inr (seconds, ''0''))"

definition typecast_time :: "string option \<Rightarrow> exn + time option" where
  "typecast_time s =
     (case s of
        None \<Rightarrow> Inr None
      | Some str \<Rightarrow>
          if str = [] then Inr None
          else (case split_on CHR '':'' str of
                  [hours, minutes, seconds0] \<Rightarrow>
                    bind (split_seconds seconds0) (\<lambda>(seconds, microseconds).
                    bind (py_int hours) (\<lambda>h.
                    bind (py_int minutes) (\<lambda>mi.
                    bind (py_int seconds) (\<lambda>sec.
                    bind (time_micros microseconds) (\<lambda>us.
                    bind (time_new h mi sec us None) (\<lambda>t. Inr (Some t)))))))
                | _ \<Rightarrow> Inl ValueError))"

datatype stamp = Date date | DateTime datetime

definition split_tz :: "string \<Rightarrow> exn + string \<times> string" where
  \<comment> \<open>the statement \<open>if '-' in t: ... elif '+' in t: ... else: ...\<close>, giving \<open>(t, tz)\<close>\<close>
  "split_tz t =
     (if CHR ''-'' \<in> set t
      then bind (unpack2 (split_on1 CHR ''-'' t)) (\<lambda>(t', tz). Inr (t', CHR ''-'' # tz))
      else if CHR ''+'' \<in> set t
      then bind (unpack2 (split_on1 CHR ''+'' t)) (\<lambda>(t', tz). Inr (t', CHR ''+'' # tz))
      else Inr (t, []))"

text \<open>The first argument is \<open>settings.USE_TZ\<close>.\<close>

definition typecast_timestamp :: "bool \<Rightarrow> string option \<Rightarrow> exn + stamp option" where
  "typecast_timestamp USE_TZ s =
     (case s of
        None \<Rightarrow> Inr None
      | Some str \<Rightarrow>
          if str = [] then Inr None
          else if CHR '' '' \<notin> set str
          then bind (typecast_date (Some str)) (\<lambda>r. Inr (map_option Date r))
          else
            bind (unpack2 (split_ws str)) (\<lambda>(d, t0).
            bind (split_tz t0) (\<lambda>(t, tz).
            let dates = split_on CHR ''-'' d; times = split_on CHR '':'' t in
            bind (index times 2) (\<lambda>seconds0.
            bind (split_seconds seconds0) (\<lambda>(seconds, microseconds).
            let tzi = (if USE_TZ then Some UTC else None) in
            bind (bind (index dates 0) py_int) (\<lambda>y.
            bind (bind (index dates 1) py_int) (\<lambda>m.
            bind (bind (index dates 2) py_int) (\<lambda>dd.
            bind (bind (index times 0) py_int) (\<lambda>h.
            bind (bind (index times 1) py_int) (\<lambda>mi.
            bind (py_int seconds) (\<lambda>sec.
            bind (timestamp_micros microseconds) (\<lambda>us.
            bind (datetime_new y m dd h mi sec us tzi) (\<lambda>r.
            Inr (Some (DateTime r)))))))))))))))"

definition typecast_decimal :: "string option \<Rightarrow> exn + decimal option" where
  "typecast_decimal s =
     (case s of
        None \<Rightarrow> Inr None
      | Some str \<Rightarrow> if str = [] then Inr None else bind (Decimal str) (\<lambda>d. Inr (Some d)))"

section \<open>Converters from Python to database text\<close>

definition rev_typecast_decimal :: "decimal option \<Rightarrow> string option" where
  "rev_typecast_decimal d = (case d of None \<Rightarrow> None | Some x \<Rightarrow> Some (dec_str x))"

text \<open>\<open>length\<close> is \<open>None\<close> by default and \<open>hash_len\<close> is 4.\<close>

definition truncate_name :: "string \<Rightarrow> int option \<Rightarrow> int \<Rightarrow> string" where
  "truncate_name name length' hash_len =
     (case length' of
        None \<Rightarrow> name
      | Some len \<Rightarrow>
          if int (length name) \<le> len then name
          else (let hsh = slice_to hash_len (hexdigest (force_bytes name))
                in slice_to (len - hash_len) name @ hsh))"




section \<open>The cursor wrappers\<close>

text \<open>
  The state the wrappers write: the connection's dirty flag and query log (\<open>self.db\<close>) and
  the records passed to \<open>logger.debug\<close>.  A Python object that is only handed through
  (parameters, results, driver exceptions) has a type variable: \<open>'v\<close>, \<open>'r\<close>, \<open>'e\<close>.
\<close>

record query =
  query_sql :: string
  query_time :: string

record 'v log_record =
  message :: string
  extra_duration :: double
  extra_sql :: string
  extra_params :: "'v option"

record 'v state =
  dirty :: bool
  queries :: "query list"
  debug_log :: "'v log_record list"

text \<open>
  An exception reaches the caller as the driver raised it, or as the database error that
  the connection's error wrapper raises in its place.
\<close>

datatype 'e raised = Raw 'e | DatabaseError 'e

text \<open>
  The wrapped cursor: \<open>getattr(cursor, name)\<close> raises or gives a callable, and a call of it
  raises or returns; the call can read the state but is driver code and does not write it.
\<close>

type_synonym ('a, 'e, 'r, 'v) callable = "'a \<Rightarrow> 'v state \<Rightarrow> 'e + 'r"

type_synonym ('a, 'e, 'r, 'v) cursor = "string \<Rightarrow> 'e + ('a, 'e, 'r, 'v) callable"

text \<open>
  Modelled from the spec: \<open>set_dirty\<close> of the connection, which is not in this module.  It
  marks the connection dirty.
\<close>

definition set_dirty :: "'v state \<Rightarrow> 'v state" where
  "set_dirty s = s\<lparr>dirty := True\<rparr>"

text \<open>
  Modelled from the spec: \<open>wrap_database_errors\<close> of the connection, which is not in this
  module.  Around a call (as a decorator) or a block (as a context manager), any error
  raised inside is raised again as the database error kind.
\<close>

definition wrap_database_errors :: "'e + 'r \<Rightarrow> 'e raised + 'r" where
  "wrap_database_errors r = (case r of Inl e \<Rightarrow> Inl (DatabaseError e) | Inr x \<Rightarrow> Inr x)"

definition unwrapped :: "'e + 'r \<Rightarrow> 'e raised + 'r" where
  \<comment> \<open>a call outside the error wrapper\<close>
  "unwrapped r = (case r of Inl e \<Rightarrow> Inl (Raw e) | Inr x \<Rightarrow> Inr x)"

subsection \<open>\<open>CursorWrapper\<close>\<close>

definition SET_DIRTY_ATTRS :: "string set" where
  "SET_DIRTY_ATTRS = {''execute'', ''executemany'', ''callproc''}"

definition WRAP_ERROR_ATTRS :: "string set" where
  "WRAP_ERROR_ATTRS =
     {''callproc'', ''close'', ''execute'', ''executemany'',
      ''fetchone'', ''fetchmany'', ''fetchall'', ''nextset''}"

text \<open>\<open>CursorWrapper.__getattr__\<close>: the attribute it returns, and the state it leaves.\<close>

definition getattr ::
  "('a, 'e, 'r, 'v) cursor \<Rightarrow> string \<Rightarrow> 'v state \<Rightarrow>
   ('e raised + ('a \<Rightarrow> 'v state \<Rightarrow> 'e raised + 'r)) \<times> 'v state" where
  "getattr cursor attr s =
     (let s1 = (if attr \<in> SET_DIRTY_ATTRS then set_dirty s else s)
      in case cursor attr of
           Inl e \<Rightarrow> (Inl (Raw e), s1)
         | Inr cursor_attr \<Rightarrow>
             if attr \<in> WRAP_ERROR_ATTRS
             then (Inr (\<lambda>args st. wrap_database_errors (cursor_attr args st)), s1)
             else (Inr (\<lambda>args st. unwrapped (cursor_attr args st)), s1))"

text \<open>The method call \<open>wrapper.attr(args)\<close>: the attribute is fetched, then called.\<close>

definition call ::
  "('a, 'e, 'r, 'v) cursor \<Rightarrow> string \<Rightarrow> 'a \<Rightarrow> 'v state \<Rightarrow> ('e raised + 'r) \<times> 'v state" where
  "call cursor attr args s =
     (case getattr cursor attr s of
        (Inl e, s1) \<Rightarrow> (Inl e, s1)
      | (Inr f, s1) \<Rightarrow> (f args s1, s1))"

subsection \<open>\<open>CursorDebugWrapper\<close>\<close>

text \<open>
  What the debug wrapper takes from outside the module: \<open>self.db.ops.last_executed_query\<close>,
  Python's \<open>str\<close> of a parameter object (\<open>None\<close> included) and \<open>len\<close>, which is \<open>None\<close> for an
  object that has no length.  The two readings of \<open>time()\<close> are arguments.  The raw cursor
  is called with the SQL text and the list of the further arguments.
\<close>

record ('e, 'r, 'v) ops =
  last_executed_query ::
    "(string \<times> 'v list, 'e, 'r, 'v) cursor \<Rightarrow> string \<Rightarrow> 'v option \<Rightarrow> string"
  str_of :: "'v option \<Rightarrow> string"
  len_of :: "'v \<Rightarrow> nat option"

definition call_raw ::
  "(string \<times> 'v list, 'e, 'r, 'v) cursor \<Rightarrow> string \<Rightarrow> string \<times> 'v list \<Rightarrow> 'v state \<Rightarrow>
   'e + 'r" where
  \<comment> \<open>\<open>self.cursor.name(args)\<close>\<close>
  "call_raw cursor name args s =
     (case cursor name of Inl e \<Rightarrow> Inl e | Inr m \<Rightarrow> m args s)"

definition debug_message :: "double \<Rightarrow> string \<Rightarrow> string \<Rightarrow> string" where
  \<comment> \<open>\<open>'(%.3f) %s; args=%s' % (duration, sql, params)\<close>\<close>
  "debug_message duration sql params =
     ''('' @ format_f 3 duration @ '') '' @ sql @ ''; args='' @ params"

definition execute ::
  "('e, 'r, 'v) ops \<Rightarrow> (string \<times> 'v list, 'e, 'r, 'v) cursor \<Rightarrow> double \<Rightarrow> double \<Rightarrow>
   string \<Rightarrow> 'v option \<Rightarrow> 'v state \<Rightarrow> ('e raised + 'r) \<times> 'v state" where
  "execute db_ops cursor start stop sql params s =
     (let s1 = set_dirty s;
          result = wrap_database_errors
                     (case params of
                        None \<Rightarrow> call_raw cursor ''execute'' (sql, []) s1
                      | Some p \<Rightarrow> call_raw cursor ''execute'' (sql, [p]) s1);
          duration = double_minus stop start;
          sql' = last_executed_query db_ops cursor sql params;
          s2 = s1\<lparr>queries := queries s1 @
                    [\<lparr>query_sql = sql', query_time = format_f 3 duration\<rparr>]\<rparr>;
          s3 = s2\<lparr>debug_log := debug_log s2 @
                    [\<lparr>message = debug_message duration sql' (str_of db_ops params),
                      extra_duration = duration, extra_sql = sql', extra_params = params\<rparr>]\<rparr>
      in (result, s3))"

definition executemany ::
  "('e, 'r, 'v) ops \<Rightarrow> (string \<times> 'v list, 'e, 'r, 'v) cursor \<Rightarrow> double \<Rightarrow> double \<Rightarrow>
   string \<Rightarrow> 'v \<Rightarrow> 'v state \<Rightarrow> ('e raised + 'r) \<times> 'v state" where
  "executemany db_ops cursor start stop sql param_list s =
     (let s1 = set_dirty s;
          result = wrap_database_errors (call_raw cursor ''executemany'' (sql, [param_list]) s1);
          duration = double_minus stop start;
          times = (case len_of db_ops param_list of Some n \<Rightarrow> str_nat n | None \<Rightarrow> ''?'');
          s2 = s1\<lparr>queries := queries s1 @
                    [\<lparr>query_sql = times @ '' times: '' @ sql,
                      query_time = format_f 3 duration\<rparr>]\<rparr>;
          s3 = s2\<lparr>debug_log := debug_log s2 @
                    [\<lparr>message = debug_message duration sql (str_of db_ops (Some param_list)),
                      extra_duration = duration, extra_sql = sql,
                      extra_params = Some param_list\<rparr>]\<rparr>
      in (result, s3))"

text \<open>A duration printed as \<open>'%.3f'\<close>: a sign, digits, a point and exactly three digits.\<close>

definition three_decimals :: "string \<Rightarrow> bool" where
  "three_decimals t =
     (let body = (if t \<noteq> [] \<and> hd t = CHR ''-'' then tl t else t);
          r = dropWhile is_digit body
      in takeWhile is_digit body \<noteq> [] \<and> length r = 4 \<and> hd r = CHR ''.'' \<and>
         list_all is_digit (tl r))"

subsection \<open>A failing cursor\<close>

text \<open>
  A raw cursor for the examples below: \<open>execute\<close>, \<open>executemany\<close> and \<open>callproc\<close> raise an
  integrity error that tells whether the connection was dirty when the call was made; any
  other attribute is missing.  Its connection starts clean, with an empty query log.
\<close>

definition failing_cursor :: "(string \<times> nat list, string, unit, nat) cursor" where
  "failing_cursor name =
     (if name \<in> SET_DIRTY_ATTRS
      then Inr (\<lambda>args st. if dirty st then Inl ''IntegrityError, connection dirty''
                           else Inl ''IntegrityError, connection clean'')
      else Inl ''AttributeError'')"

definition clean_state :: "nat state" where
  "clean_state = \<lparr>dirty = False, queries = [], debug_log = []\<rparr>"

definition plain_ops :: "(string, unit, nat) ops" where
  \<comment> \<open>a backend whose last executed query is the SQL text as given\<close>
  "plain_ops =
     \<lparr>last_executed_query = (\<lambda>cursor sql params. sql),
      str_of = (\<lambda>params. case params of None \<Rightarrow> ''None'' | Some n \<Rightarrow> str_nat n),
      len_of = (\<lambda>param_list. Some param_list)\<rparr>"

definition accepting_cursor :: "(string \<times> nat list, string, unit, nat) cursor" where
  \<comment> \<open>a raw cursor whose \<open>execute\<close>, \<open>executemany\<close> and \<open>callproc\<close> return normally\<close>
  "accepting_cursor name =
     (if name \<in> SET_DIRTY_ATTRS then Inr (\<lambda>args st. Inr ()) else Inl ''AttributeError'')"


subsection \<open>The two-step reading of \<open>format_number\<close>\<close>



section \<open>Properties of the converters\<close>

subsection \<open>Evaluation of the text functions\<close>

lemmas text_defs =
  is_space_def is_digit_def digit_val_def strip_def nat_of_digits_def py_int_def
  bind_def index_def unpack2_def slice_to_def

lemmas float_defs =
  float_dot_def to_double_def dyadic_to_double_def double_times_def int_of_double_def
  bitlen.simps ge_pow2_def round_half_even_def Let_def

lemma digit_char_values:
  "digit_char 0 = CHR ''0''" "digit_char (Suc 0) = CHR ''1''" "digit_char 2 = CHR ''2''"
  "digit_char 3 = CHR ''3''" "digit_char 4 = CHR ''4''" "digit_char 5 = CHR ''5''"
  "digit_char 6 = CHR ''6''" "digit_char 7 = CHR ''7''" "digit_char 8 = CHR ''8''"
  "digit_char 9 = CHR ''9''"
  by (simp_all add: digit_char_def char_of_eq_iff)

lemma split_ws_aux_word:
  "list_all (\<lambda>c. \<not> is_space c) off \<Longrightarrow>
   split_ws_aux w off = (if w @ off = [] then [] else [w @ off])"
  by (induction off arbitrary: w) auto

lemma time_micros_590358: "time_micros ''590358'' = Inr 590358"
  by (simp add: time_micros_def text_defs float_defs)

lemma timestamp_micros_590358: "timestamp_micros ''590358'' = Inr 590358"
  by (simp add: timestamp_micros_def text_defs)

text \<open>
  C4: \<open>typecast_timestamp\<close> on \<open>"2005-07-29 15:48:00.590358-05"\<close> gives the datetime 2005-07-29
  15:48:00 with 590358 microseconds.  The text after the first \<open>-\<close> of the time part is split
  off and never used: whatever stands there (\<open>05\<close> or any other text without whitespace), the
  result is the same.  The result carries the UTC zone exactly when \<open>USE_TZ\<close> is set.
\<close>

theorem C4_typecast_timestamp_offset_discarded:
  assumes "list_all (\<lambda>c. \<not> is_space c) off"
  shows "typecast_timestamp USE_TZ (Some (''2005-07-29 15:48:00.590358-'' @ off)) =
         Inr (Some (DateTime \<lparr>year = 2005, month = 7, day = 29, hour = 15, minute = 48,
                              second = 0, microsecond = 590358,
                              tzinfo = (if USE_TZ then Some UTC else None)\<rparr>))"
proof -
  have ws: "split_ws (''2005-07-29 15:48:00.590358-'' @ off) =
            [''2005-07-29'', ''15:48:00.590358-'' @ off]"
    using assms by (simp add: split_ws_def split_ws_aux_word is_space_def)
  have tz: "split_tz (''15:48:00.590358-'' @ off) = Inr (''15:48:00.590358'', CHR ''-'' # off)"
    by (simp add: split_tz_def split_on1_def unpack2_def bind_def)
  show ?thesis
    by (simp add: typecast_timestamp_def ws [simplified] tz [simplified] split_seconds_def timestamp_micros_590358
        text_defs datetime_new_def c_int_def valid_date_def valid_time_def days_in_month_def)
qed

theorem C4_typecast_timestamp_example:
  "typecast_timestamp True (Some ''2005-07-29 15:48:00.590358-05'') =
     Inr (Some (DateTime \<lparr>year = 2005, month = 7, day = 29, hour = 15, minute = 48,
                          second = 0, microsecond = 590358, tzinfo = Some UTC\<rparr>)) \<and>
   typecast_timestamp False (Some ''2005-07-29 15:48:00.590358-05'') =
     Inr (Some (DateTime \<lparr>year = 2005, month = 7, day = 29, hour = 15, minute = 48,
                          second = 0, microsecond = 590358, tzinfo = None\<rparr>))"
  using C4_typecast_timestamp_offset_discarded [of "''05''" True]
        C4_typecast_timestamp_offset_discarded [of "''05''" False]
  by (simp add: is_space_def)

text \<open>
  C5: \<open>typecast_time\<close> on \<open>"15:48:00.590358"\<close> gives the time 15:48:00 with 590358 microseconds
  and no zone.  The microseconds are \<open>int(float('.590358') * 1000000)\<close>: the float nearest to
  0.590358 is \<open>5317472137630383 * 2 ^ -53\<close>, its product with 1000000 rounds to the float
  590358.0 (\<open>5071136605863936 * 2 ^ -33\<close>), and the truncation of that is 590358.
\<close>

theorem C5_typecast_time_example:
  "typecast_time (Some ''15:48:00.590358'') =
     Inr (Some \<lparr>time_hour = 15, time_minute = 48, time_second = 0,
                time_microsecond = 590358, time_tzinfo = None\<rparr>) \<and>
   float_dot ''590358'' = Inr (Finite False 5317472137630383 (- 53)) \<and>
   double_times (Finite False 5317472137630383 (- 53)) 1000000 = Finite False 5071136605863936 (- 33) \<and>
   int_of_double (Finite False 5071136605863936 (- 33)) = Inr 590358"
proof -
  have "typecast_time (Some ''15:48:00.590358'') =
     Inr (Some \<lparr>time_hour = 15, time_minute = 48, time_second = 0,
                time_microsecond = 590358, time_tzinfo = None\<rparr>)"
    by (simp add: typecast_time_def split_seconds_def time_micros_590358 text_defs
        time_new_def c_int_def valid_time_def)
  moreover have "float_dot ''590358'' = Inr (Finite False 5317472137630383 (- 53))"
    by (simp add: text_defs float_defs)
  moreover have
    "double_times (Finite False 5317472137630383 (- 53)) 1000000 = Finite False 5071136605863936 (- 33)"
    by (simp add: float_defs)
  moreover have "int_of_double (Finite False 5071136605863936 (- 33)) = Inr 590358"
    by (simp add: float_defs)
  ultimately show ?thesis by simp
qed

text \<open>
  C6, the claim as stated, fails on its example: on the fractional digits \<open>"3"\<close> (the seconds
  \<open>"00.3"\<close>) the two derivations agree, both give 300000 microseconds.
\<close>

theorem C6_example_3_agrees:
  "time_micros ''3'' = Inr 300000 \<and> timestamp_micros ''3'' = Inr 300000 \<and>
   typecast_time (Some ''00:00:00.3'') =
     Inr (Some \<lparr>time_hour = 0, time_minute = 0, time_second = 0,
                time_microsecond = 300000, time_tzinfo = None\<rparr>) \<and>
   typecast_timestamp False (Some ''2005-07-29 00:00:00.3'') =
     Inr (Some (DateTime \<lparr>year = 2005, month = 7, day = 29, hour = 0, minute = 0,
                          second = 0, microsecond = 300000, tzinfo = None\<rparr>))"
proof -
  have a: "time_micros ''3'' = Inr 300000"
    by (simp add: time_micros_def text_defs float_defs)
  have b: "timestamp_micros ''3'' = Inr 300000"
    by (simp add: timestamp_micros_def text_defs)
  have c: "typecast_time (Some ''00:00:00.3'') =
     Inr (Some \<lparr>time_hour = 0, time_minute = 0, time_second = 0,
                time_microsecond = 300000, time_tzinfo = None\<rparr>)"
    by (simp add: typecast_time_def split_seconds_def a text_defs
        time_new_def c_int_def valid_time_def)
  have d: "typecast_timestamp False (Some ''2005-07-29 00:00:00.3'') =
     Inr (Some (DateTime \<lparr>year = 2005, month = 7, day = 29, hour = 0, minute = 0,
                          second = 0, microsecond = 300000, tzinfo = None\<rparr>))"
    by (simp add: typecast_timestamp_def split_ws_def split_tz_def split_seconds_def b
        text_defs datetime_new_def c_int_def valid_date_def valid_time_def days_in_month_def)
  from a b c d show ?thesis by simp
qed

text \<open>
  C6, amended: the two derivations are not the same function on digit strings.  On the
  fractional digits \<open>"0157"\<close> the float product is just below 15700, so \<open>typecast_time\<close> gets
  15699 microseconds where \<open>typecast_timestamp\<close> gets 15700.
\<close>

theorem C6_micros_differ:
  "time_micros ''0157'' = Inr 15699 \<and> timestamp_micros ''0157'' = Inr 15700 \<and>
   (\<exists>ms. ms \<noteq> [] \<and> list_all is_digit ms \<and> time_micros ms \<noteq> timestamp_micros ms) \<and>
   typecast_time (Some ''00:00:00.0157'') =
     Inr (Some \<lparr>time_hour = 0, time_minute = 0, time_second = 0,
                time_microsecond = 15699, time_tzinfo = None\<rparr>) \<and>
   typecast_timestamp False (Some ''2005-07-29 00:00:00.0157'') =
     Inr (Some (DateTime \<lparr>year = 2005, month = 7, day = 29, hour = 0, minute = 0,
                          second = 0, microsecond = 15700, tzinfo = None\<rparr>))"
proof -
  have a: "time_micros ''0157'' = Inr 15699"
    by (simp add: time_micros_def text_defs float_defs)
  have b: "timestamp_micros ''0157'' = Inr 15700"
    by (simp add: timestamp_micros_def text_defs)
  have "list_all is_digit ''0157''"
    by (simp add: is_digit_def)
  with a b have e: "\<exists>ms. ms \<noteq> [] \<and> list_all is_digit ms \<and> time_micros ms \<noteq> timestamp_micros ms"
    by (intro exI [of _ "''0157''"]) simp
  have c: "typecast_time (Some ''00:00:00.0157'') =
     Inr (Some \<lparr>time_hour = 0, time_minute = 0, time_second = 0,
                time_microsecond = 15699, time_tzinfo = None\<rparr>)"
    by (simp add: typecast_time_def split_seconds_def a text_defs
        time_new_def c_int_def valid_time_def)
  have d: "typecast_timestamp False (Some ''2005-07-29 00:00:00.0157'') =
     Inr (Some (DateTime \<lparr>year = 2005, month = 7, day = 29, hour = 0, minute = 0,
                          second = 0, microsecond = 15700, tzinfo = None\<rparr>))"
    by (simp add: typecast_timestamp_def split_ws_def split_tz_def split_seconds_def b
        text_defs datetime_new_def c_int_def valid_date_def valid_time_def days_in_month_def)
  from a b c d e show ?thesis by simp
qed

text \<open>
  C7: on \<open>None\<close> and on the empty string every converter from text returns \<open>None\<close>, and the
  converter of a decimal to text returns \<open>None\<close> on \<open>None\<close>.
\<close>

theorem C7_none_and_empty:
  "typecast_date None = Inr None \<and> typecast_date (Some []) = Inr None \<and>
   typecast_time None = Inr None \<and> typecast_time (Some []) = Inr None \<and>
   typecast_timestamp USE_TZ None = Inr None \<and> typecast_timestamp USE_TZ (Some []) = Inr None \<and>
   typecast_decimal None = Inr None \<and> typecast_decimal (Some []) = Inr None \<and>
   rev_typecast_decimal None = None"
  by (simp add: typecast_date_def typecast_time_def typecast_timestamp_def typecast_decimal_def
      rev_typecast_decimal_def)

section \<open>Properties of the cursor wrappers\<close>

lemma of_char_digit_char: "d < 10 \<Longrightarrow> (of_char (digit_char d) :: nat) = 48 + d"
  by (simp add: digit_char_def)

lemma is_digit_digit_char: "d < 10 \<Longrightarrow> is_digit (digit_char d)"
  by (simp add: is_digit_def of_char_digit_char)

lemma str_nat_digits: "list_all is_digit (str_nat n)"
proof (induction n rule: str_nat.induct)
  case (1 n)
  show ?case
  proof (cases "n < 10")
    case True
    then show ?thesis by (subst str_nat.simps) (simp add: is_digit_digit_char)
  next
    case False
    with 1 show ?thesis by (subst str_nat.simps) (simp add: is_digit_digit_char)
  qed
qed

lemma str_nat_not_empty: "str_nat n \<noteq> []"
  by (subst str_nat.simps) simp

lemma length_str_nat: "0 < k \<Longrightarrow> n < 10 ^ k \<Longrightarrow> length (str_nat n) \<le> k"
proof (induction n arbitrary: k rule: str_nat.induct)
  case (1 n)
  show ?case
  proof (cases "n < 10")
    case True
    with 1(2) show ?thesis by (subst str_nat.simps) simp
  next
    case False
    from False 1(3) have k: "1 < k"
      by (cases "k = 1") (use 1(2) in auto)
    then obtain j where j: "k = Suc j" "0 < j"
      by (cases k) auto
    from 1(3) j have "n div 10 < 10 ^ j"
      by (simp add: less_mult_imp_div_less mult.commute)
    with 1(1) [of j] False j have "length (str_nat (n div 10)) \<le> j" by simp
    with False j show ?thesis by (subst str_nat.simps) simp
  qed
qed

lemma is_digit_zero: "list_all is_digit (replicate k CHR ''0'')"
  by (simp add: list_all_iff is_digit_def)

lemma not_digit_point: "\<not> is_digit CHR ''.''"
  by (simp add: is_digit_def)

lemma not_digit_minus: "\<not> is_digit CHR ''-''"
  by (simp add: is_digit_def)

lemma three_decimals_shape:
  assumes "ip \<noteq> []" "list_all is_digit ip" "length fp = 3" "list_all is_digit fp"
  shows "three_decimals (sign_str sg @ ip @ CHR ''.'' # fp)"
proof -
  from assms(1,2) obtain c cs where ip: "ip = c # cs" "is_digit c"
    by (cases ip) auto
  then have c: "c \<noteq> CHR ''-''"
    using not_digit_minus by auto
  have tw: "takeWhile is_digit (ip @ CHR ''.'' # fp) = ip"
    using assms(2) by (simp add: list_all_iff not_digit_point)
  have dw: "dropWhile is_digit (ip @ CHR ''.'' # fp) = CHR ''.'' # fp"
    using assms(2) by (simp add: list_all_iff not_digit_point)
  show ?thesis
  proof (cases sg)
    case True
    then show ?thesis
      using tw dw assms by (simp add: three_decimals_def sign_str_def)
  next
    case False
    then show ?thesis
      using tw dw assms ip c by (simp add: three_decimals_def sign_str_def)
  qed
qed

lemma format_f_three_decimals: "three_decimals (format_f 3 (Finite sg m e))"
proof -
  define q where "q = (if 0 \<le> e then m * 2 ^ nat e * 10 ^ 3
                       else round_half_even (m * 10 ^ 3) (2 ^ nat (- e)))"
  have len: "length (str_nat (q mod 10 ^ 3)) \<le> 3"
    by (rule length_str_nat) simp_all
  have "format_f 3 (Finite sg m e) =
        sign_str sg @ str_nat (q div 10 ^ 3) @ CHR ''.'' # zfill 3 (str_nat (q mod 10 ^ 3))"
    by (simp add: format_f_def q_def sign_str_def Let_def)
  moreover have "three_decimals
        (sign_str sg @ str_nat (q div 10 ^ 3) @ CHR ''.'' # zfill 3 (str_nat (q mod 10 ^ 3)))"
    using len
    by (intro three_decimals_shape)
       (simp_all add: str_nat_not_empty str_nat_digits zfill_def is_digit_zero)
  ultimately show ?thesis by simp
qed

lemma dirty_attrs_wrapped: "attr \<in> SET_DIRTY_ATTRS \<Longrightarrow> attr \<in> WRAP_ERROR_ATTRS"
  by (auto simp: SET_DIRTY_ATTRS_def WRAP_ERROR_ATTRS_def)

text \<open>
  C1: for \<open>execute\<close>, \<open>executemany\<close> and \<open>callproc\<close>, fetching the attribute from the wrapper
  already marks the connection dirty, so the underlying call is made on a dirty connection
  and the connection is dirty whatever the call does; an exception \<open>e\<close> of the underlying
  call reaches the caller as the database error for \<open>e\<close>, not as \<open>e\<close>.  The debug wrapper's
  own \<open>execute\<close> and \<open>executemany\<close> do the same.
\<close>

theorem C1_dirty_before_call_error_translated:
  assumes "attr \<in> SET_DIRTY_ATTRS" and "cursor attr = Inr m"
  shows "dirty (snd (getattr cursor attr s)) \<and>
         call cursor attr args s = (wrap_database_errors (m args (set_dirty s)), set_dirty s) \<and>
         dirty (snd (call cursor attr args s)) \<and>
         (\<forall>e. m args (set_dirty s) = Inl e \<longrightarrow>
              call cursor attr args s = (Inl (DatabaseError e), set_dirty s)) \<and>
         dirty (snd (execute db_ops dcursor start stop sql params s)) \<and>
         fst (execute db_ops dcursor start stop sql params s) =
           wrap_database_errors
             (call_raw dcursor ''execute''
                (sql, case params of None \<Rightarrow> [] | Some p \<Rightarrow> [p]) (set_dirty s)) \<and>
         dirty (snd (executemany db_ops dcursor start stop sql param_list s)) \<and>
         fst (executemany db_ops dcursor start stop sql param_list s) =
           wrap_database_errors
             (call_raw dcursor ''executemany'' (sql, [param_list]) (set_dirty s))"
proof -
  from assms have g: "getattr cursor attr s =
      (Inr (\<lambda>args st. wrap_database_errors (m args st)), set_dirty s)"
    by (simp add: getattr_def dirty_attrs_wrapped)
  then have c: "call cursor attr args s =
      (wrap_database_errors (m args (set_dirty s)), set_dirty s)"
    by (simp add: call_def)
  have d: "dirty (set_dirty s)"
    by (simp add: set_dirty_def)
  have e: "dirty (snd (execute db_ops dcursor start stop sql params s))"
    by (simp add: execute_def set_dirty_def Let_def)
  have f: "fst (execute db_ops dcursor start stop sql params s) =
           wrap_database_errors
             (call_raw dcursor ''execute''
                (sql, case params of None \<Rightarrow> [] | Some p \<Rightarrow> [p]) (set_dirty s))"
    by (simp add: execute_def Let_def split: option.split)
  have h: "dirty (snd (executemany db_ops dcursor start stop sql param_list s))"
    by (simp add: executemany_def set_dirty_def Let_def)
  have i: "fst (executemany db_ops dcursor start stop sql param_list s) =
           wrap_database_errors
             (call_raw dcursor ''executemany'' (sql, [param_list]) (set_dirty s))"
    by (simp add: executemany_def Let_def)
  from g c d e f h i show ?thesis
    by (simp add: wrap_database_errors_def)
qed

theorem C1_failing_execute_example:
  "''execute'' \<in> SET_DIRTY_ATTRS \<and>
   call failing_cursor ''execute'' (''INSERT'', []) clean_state =
     (Inl (DatabaseError ''IntegrityError, connection dirty''),
      \<lparr>dirty = True, queries = [], debug_log = []\<rparr>) \<and>
   dirty (snd (call failing_cursor ''execute'' (''INSERT'', []) clean_state))"
proof -
  have a: "''execute'' \<in> SET_DIRTY_ATTRS"
    by (simp add: SET_DIRTY_ATTRS_def)
  have b: "failing_cursor ''execute'' =
      Inr (\<lambda>args st. if dirty st then Inl ''IntegrityError, connection dirty''
                      else Inl ''IntegrityError, connection clean'')"
    by (simp add: failing_cursor_def a)
  show ?thesis
    using a C1_dirty_before_call_error_translated
        [where attr = "''execute''" and cursor = failing_cursor and s = clean_state
           and args = "(''INSERT'', [])"
           and m = "\<lambda>args st. if dirty st then Inl ''IntegrityError, connection dirty''
                             else Inl ''IntegrityError, connection clean''"
           and db_ops = plain_ops and dcursor = failing_cursor
           and start = "Finite False 1 0" and stop = "Finite False 3 (- 1)"
           and sql = "''INSERT''" and params = None and param_list = 2, OF a b]
    by (simp add: wrap_database_errors_def set_dirty_def clean_state_def)
qed

text \<open>
  C2: in debug mode \<open>execute\<close> appends exactly one entry to the query log and passes exactly
  one record to \<open>logger.debug\<close>, whatever the underlying \<open>execute\<close> does; the entry's time is
  the duration with exactly three decimals; and the result comes with that state: when the
  underlying call raises \<open>err\<close>, the caller gets the database error for \<open>err\<close> and the state
  holds the new entry and record.
\<close>

theorem C2_debug_execute_logs_on_every_path:
  assumes "double_minus stop start = Finite sg m e"
  shows "(\<exists>entry. queries (snd (execute db_ops cursor start stop sql params s)) =
                    queries s @ [entry] \<and>
                  query_time entry = format_f 3 (double_minus stop start) \<and>
                  three_decimals (query_time entry)) \<and>
         (\<exists>record. debug_log (snd (execute db_ops cursor start stop sql params s)) =
                    debug_log s @ [record]) \<and>
         length (queries (snd (execute db_ops cursor start stop sql params s))) =
           Suc (length (queries s)) \<and>
         length (debug_log (snd (execute db_ops cursor start stop sql params s))) =
           Suc (length (debug_log s)) \<and>
         (\<forall>err. call_raw cursor ''execute''
                  (sql, case params of None \<Rightarrow> [] | Some p \<Rightarrow> [p]) (set_dirty s) = Inl err \<longrightarrow>
                fst (execute db_ops cursor start stop sql params s) =
                  Inl (DatabaseError err))"
proof -
  have t: "three_decimals (format_f 3 (double_minus stop start))"
    using assms format_f_three_decimals by simp
  have q: "queries (snd (execute db_ops cursor start stop sql params s)) =
           queries s @ [\<lparr>query_sql = last_executed_query db_ops cursor sql params,
                         query_time = format_f 3 (double_minus stop start)\<rparr>]"
    by (simp add: execute_def set_dirty_def Let_def)
  have l: "\<exists>record. debug_log (snd (execute db_ops cursor start stop sql params s)) =
                    debug_log s @ [record]"
    by (simp add: execute_def set_dirty_def Let_def)
  have r: "\<forall>err. call_raw cursor ''execute''
                  (sql, case params of None \<Rightarrow> [] | Some p \<Rightarrow> [p]) (set_dirty s) = Inl err \<longrightarrow>
                fst (execute db_ops cursor start stop sql params s) =
                  Inl (DatabaseError err)"
    by (simp add: execute_def Let_def wrap_database_errors_def split: option.split)
  from q t have "\<exists>entry. queries (snd (execute db_ops cursor start stop sql params s)) =
                    queries s @ [entry] \<and>
                  query_time entry = format_f 3 (double_minus stop start) \<and>
                  three_decimals (query_time entry)"
    by simp
  moreover from q have "length (queries (snd (execute db_ops cursor start stop sql params s))) =
           Suc (length (queries s))"
    by simp
  moreover from l have "length (debug_log (snd (execute db_ops cursor start stop sql params s))) =
           Suc (length (debug_log s))"
    by auto
  ultimately show ?thesis using l r by blast
qed

theorem C2_failing_execute_example:
  "double_minus (Finite False 5 (- 1)) (Finite False 2 0) = Finite False 4503599627370496 (- 53) \<and>
   execute plain_ops failing_cursor (Finite False 2 0) (Finite False 5 (- 1))
       ''INSERT'' None clean_state =
     (Inl (DatabaseError ''IntegrityError, connection dirty''),
      \<lparr>dirty = True,
        queries = [\<lparr>query_sql = ''INSERT'', query_time = ''0.500''\<rparr>],
        debug_log = [\<lparr>message = ''(0.500) INSERT; args=None'',
                      extra_duration = Finite False 4503599627370496 (- 53),
                      extra_sql = ''INSERT'', extra_params = None\<rparr>]\<rparr>) \<and>
   length (queries (snd (execute plain_ops failing_cursor (Finite False 2 0)
       (Finite False 5 (- 1)) ''INSERT'' None clean_state))) = Suc (length (queries clean_state))"
proof -
  have d: "double_minus (Finite False 5 (- 1)) (Finite False 2 0) =
           Finite False 4503599627370496 (- 53)"
    by (simp add: double_minus_def float_defs)
  have "format_f 3 (Finite False 4503599627370496 (- 53)) =
        str_nat 0 @ CHR ''.'' # zfill 3 (str_nat 500)"
    by (simp add: format_f_def round_half_even_def Let_def)
  also have "\<dots> = ''0.500''"
    by (simp add: str_nat.simps zfill_def digit_char_values)
  finally have f: "format_f 3 (Finite False 4503599627370496 (- 53)) = ''0.500''" .
  have x: "execute plain_ops failing_cursor (Finite False 2 0) (Finite False 5 (- 1))
       ''INSERT'' None clean_state =
     (Inl (DatabaseError ''IntegrityError, connection dirty''),
      \<lparr>dirty = True,
        queries = [\<lparr>query_sql = ''INSERT'', query_time = ''0.500''\<rparr>],
        debug_log = [\<lparr>message = ''(0.500) INSERT; args=None'',
                      extra_duration = Finite False 4503599627370496 (- 53),
                      extra_sql = ''INSERT'', extra_params = None\<rparr>]\<rparr>)"
    by (simp add: execute_def d f call_raw_def failing_cursor_def SET_DIRTY_ATTRS_def
        wrap_database_errors_def set_dirty_def clean_state_def plain_ops_def debug_message_def
        Let_def)
  show ?thesis
    using d x C2_debug_execute_logs_on_every_path [OF d, of plain_ops failing_cursor
        "''INSERT''" None clean_state]
    by simp
qed

text \<open>
  C3, the claim as stated, fails for \<open>executemany\<close>: with a backend whose
  \<open>last_executed_query\<close> gives \<open>INSERT\<close>, the entry that \<open>executemany\<close> appends for a parameter
  list of length 2 has the SQL text \<open>2 times: INSERT\<close>.
\<close>

theorem C3_executemany_entry_example:
  "executemany plain_ops accepting_cursor (Finite False 2 0) (Finite False 5 (- 1))
       ''INSERT'' 2 clean_state =
     (Inr (),
      \<lparr>dirty = True,
        queries = [\<lparr>query_sql = ''2 times: INSERT'', query_time = ''0.500''\<rparr>],
        debug_log = [\<lparr>message = ''(0.500) INSERT; args=2'',
                      extra_duration = Finite False 4503599627370496 (- 53),
                      extra_sql = ''INSERT'', extra_params = Some 2\<rparr>]\<rparr>) \<and>
   last_executed_query plain_ops accepting_cursor ''INSERT'' (Some 2) = ''INSERT'' \<and>
   query_sql (last (queries (snd (executemany plain_ops accepting_cursor (Finite False 2 0)
       (Finite False 5 (- 1)) ''INSERT'' 2 clean_state)))) \<noteq>
     last_executed_query plain_ops accepting_cursor ''INSERT'' (Some 2)"
proof -
  have d: "double_minus (Finite False 5 (- 1)) (Finite False 2 0) =
           Finite False 4503599627370496 (- 53)"
    by (simp add: double_minus_def float_defs)
  have "format_f 3 (Finite False 4503599627370496 (- 53)) =
        str_nat 0 @ CHR ''.'' # zfill 3 (str_nat 500)"
    by (simp add: format_f_def round_half_even_def Let_def)
  also have "\<dots> = ''0.500''"
    by (simp add: str_nat.simps zfill_def digit_char_values)
  finally have f: "format_f 3 (Finite False 4503599627370496 (- 53)) = ''0.500''" .
  have n: "str_nat 2 = ''2''"
    by (simp add: str_nat.simps digit_char_values)
  have x: "executemany plain_ops accepting_cursor (Finite False 2 0) (Finite False 5 (- 1))
       ''INSERT'' 2 clean_state =
     (Inr (),
      \<lparr>dirty = True,
        queries = [\<lparr>query_sql = ''2 times: INSERT'', query_time = ''0.500''\<rparr>],
        debug_log = [\<lparr>message = ''(0.500) INSERT; args=2'',
                      extra_duration = Finite False 4503599627370496 (- 53),
                      extra_sql = ''INSERT'', extra_params = Some 2\<rparr>]\<rparr>)"
    by (simp add: executemany_def d f n call_raw_def accepting_cursor_def SET_DIRTY_ATTRS_def
        wrap_database_errors_def set_dirty_def clean_state_def plain_ops_def debug_message_def
        Let_def)
  have y: "last_executed_query plain_ops accepting_cursor ''INSERT'' (Some 2) = ''INSERT''"
    by (simp add: plain_ops_def)
  show ?thesis
    unfolding x y by simp
qed

text \<open>
  C3, amended: the entry that \<open>execute\<close> appends to the query log has as its SQL text what
  \<open>last_executed_query\<close> gives for the cursor, the SQL and the parameters; the entry that
  \<open>executemany\<close> appends has the text \<open>N times: \<close> followed by the SQL as it was passed in,
  where \<open>N\<close> is the length of the parameter list, or \<open>?\<close> when it has none.  Both entries
  carry the duration with three decimals, and both are appended whatever the raw call does.
\<close>

theorem C3_query_log_entry_sql:
  "queries (snd (execute db_ops cursor start stop sql params s)) =
     queries s @ [\<lparr>query_sql = last_executed_query db_ops cursor sql params,
                   query_time = format_f 3 (double_minus stop start)\<rparr>] \<and>
   queries (snd (executemany db_ops cursor start stop sql param_list s)) =
     queries s @
       [\<lparr>query_sql = (case len_of db_ops param_list of Some n \<Rightarrow> str_nat n | None \<Rightarrow> ''?'') @
                      '' times: '' @ sql,
         query_time = format_f 3 (double_minus stop start)\<rparr>]"
  by (simp add: execute_def executemany_def set_dirty_def Let_def)

section \<open>Properties of \<open>truncate_name\<close> and \<open>format_number\<close>\<close>

lemma length_concat_pairs: "length (concat (map (\<lambda>b. [f b, g b]) xs)) = 2 * length xs"
  by (induction xs) simp_all

lemma length_md5_digest: "length (md5_digest bs) = 16"
  by (simp add: md5_digest_def le_bytes_def Let_def split: prod.split)

lemma length_hexdigest: "length (hexdigest bs) = 32"
  by (simp add: hexdigest_def length_concat_pairs length_md5_digest)

lemma length_truncate_name:
  assumes "len < int (length name)" and "0 \<le> hash_len" and "hash_len \<le> len"
  shows "int (length (truncate_name name (Some len) hash_len)) = len - hash_len + min hash_len 32"
  using assms by (simp add: truncate_name_def slice_to_def length_hexdigest Let_def)

text \<open>
  C8, the claim as stated, fails when \<open>hash_len\<close> exceeds the 32 characters of the
  hexadecimal digest: the name of 50 letters \<open>x\<close>, cut to the length 40 with \<open>hash_len = 36\<close>
  (which is at most 40), comes back 36 characters long.
\<close>

theorem C8_hash_len_36_example:
  "int (length (replicate 50 CHR ''x'')) > 40 \<and> (36 :: int) \<le> 40 \<and>
   length (truncate_name (replicate 50 CHR ''x'') (Some 40) 36) = 36 \<and>
   length (truncate_name (replicate 50 CHR ''x'') (Some 40) 36) \<noteq> 40"
proof -
  have "int (length (truncate_name (replicate 50 CHR ''x'') (Some 40) 36)) = 40 - 36 + min 36 32"
    by (rule length_truncate_name) simp_all
  then show ?thesis by simp
qed

text \<open>
  C8, amended: \<open>truncate_name\<close> returns the name itself when no length is given or the name
  fits; otherwise, provided \<open>hash_len\<close> is at least 0, at most 32 and at most the length, the
  result is the first \<open>length - hash_len\<close> characters of the name followed by the first
  \<open>hash_len\<close> characters of the hexadecimal MD5 digest of the name's UTF-8 bytes, and it is
  exactly \<open>length\<close> characters long.  The result is a function of the three arguments only.
\<close>

theorem C8_truncate_name:
  "truncate_name name None hash_len = name \<and>
   (int (length name) \<le> len \<longrightarrow> truncate_name name (Some len) hash_len = name) \<and>
   (len < int (length name) \<and> 0 \<le> hash_len \<and> hash_len \<le> 32 \<and> hash_len \<le> len \<longrightarrow>
      truncate_name name (Some len) hash_len =
        take (nat (len - hash_len)) name @ take (nat hash_len) (hexdigest (force_bytes name)) \<and>
      int (length (truncate_name name (Some len) hash_len)) = len \<and>
      length (take (nat hash_len) (hexdigest (force_bytes name))) = nat hash_len)"
proof -
  have a: "truncate_name name None hash_len = name"
    by (simp add: truncate_name_def)
  have b: "int (length name) \<le> len \<longrightarrow> truncate_name name (Some len) hash_len = name"
    by (simp add: truncate_name_def)
  have c: "truncate_name name (Some len) hash_len =
        take (nat (len - hash_len)) name @ take (nat hash_len) (hexdigest (force_bytes name))"
    if "len < int (length name)" "0 \<le> hash_len" "hash_len \<le> len"
    using that by (simp add: truncate_name_def slice_to_def Let_def)
  have d: "int (length (truncate_name name (Some len) hash_len)) = len"
    if "len < int (length name)" "0 \<le> hash_len" "hash_len \<le> 32" "hash_len \<le> len"
    using that length_truncate_name [of len name hash_len] by simp
  have e: "length (take (nat hash_len) (hexdigest (force_bytes name))) = nat hash_len"
    if "0 \<le> hash_len" "hash_len \<le> 32"
    using that by (simp add: length_hexdigest)
  from a b c d e show ?thesis by blast
qed

theorem C8_truncate_name_example:
  "truncate_name (replicate 50 CHR ''x'') None 4 = replicate 50 CHR ''x'' \<and>
   truncate_name ''auth_user'' (Some 20) 4 = ''auth_user'' \<and>
   truncate_name (replicate 50 CHR ''x'') (Some 20) 4 =
     replicate 16 CHR ''x'' @ take 4 (hexdigest (force_bytes (replicate 50 CHR ''x''))) \<and>
   length (truncate_name (replicate 50 CHR ''x'') (Some 20) 4) = 20"
  using C8_truncate_name [where name = "replicate 50 CHR ''x''" and len = 20 and hash_len = 4]
    C8_truncate_name [where name = "''auth_user''" and len = 20 and hash_len = 4]
  by simp





section \<open>Decimal text there and back\<close>

lemma nat_of_digits_snoc: "nat_of_digits (ds @ [c]) = 10 * nat_of_digits ds + digit_val c"
  by (simp add: nat_of_digits_def)

lemma digit_val_less: "is_digit c \<Longrightarrow> digit_val c < 10"
  by (auto simp: is_digit_def digit_val_def)

lemma digit_char_digit_val: "is_digit c \<Longrightarrow> digit_char (digit_val c) = c"
  by (simp add: is_digit_def digit_val_def digit_char_def)

lemma digit_val_zero_iff: "is_digit c \<Longrightarrow> digit_val c = 0 \<longleftrightarrow> c = CHR ''0''"
proof
  assume d: "is_digit c" and z: "digit_val c = 0"
  from d have "digit_char (digit_val c) = c" by (rule digit_char_digit_val)
  with z show "c = CHR ''0''" by (simp add: digit_char_values)
next
  assume "c = CHR ''0''"
  then show "digit_val c = 0" by (simp add: digit_val_def)
qed

lemma str_nat_step:
  "d < 10 \<Longrightarrow> str_nat (10 * n + d) = (if n = 0 then [] else str_nat n) @ [digit_char d]"
  by (subst str_nat.simps) (cases "n = 0"; simp)

lemma nat_of_digits_zero_iff:
  "list_all is_digit ds \<Longrightarrow> nat_of_digits ds = 0 \<longleftrightarrow> (\<forall>c \<in> set ds. c = CHR ''0'')"
proof (induction ds rule: rev_induct)
  case Nil
  show ?case by (simp add: nat_of_digits_def)
next
  case (snoc c ds)
  then show ?case
    by (auto simp: nat_of_digits_snoc digit_val_zero_iff)
qed

lemma str_nat_nat_of_digits:
  "list_all is_digit ds \<Longrightarrow> ds \<noteq> [] \<Longrightarrow>
   str_nat (nat_of_digits ds) =
     (if nat_of_digits ds = 0 then ''0'' else dropWhile (\<lambda>c. c = CHR ''0'') ds)"
proof (induction ds rule: rev_induct)
  case Nil
  then show ?case by simp
next
  case (snoc c ds)
  from snoc.prems have c: "is_digit c" and ds: "list_all is_digit ds"
    by simp_all
  have step: "str_nat (nat_of_digits (ds @ [c])) =
              (if nat_of_digits ds = 0 then [] else str_nat (nat_of_digits ds)) @ [c]"
    using c by (simp add: nat_of_digits_snoc str_nat_step digit_val_less digit_char_digit_val)
  show ?case
  proof (cases "nat_of_digits ds = 0")
    case True
    with ds have z: "\<forall>x \<in> set ds. x = CHR ''0''"
      by (simp add: nat_of_digits_zero_iff)
    then have "dropWhile (\<lambda>c. c = CHR ''0'') (ds @ [c]) = (if c = CHR ''0'' then [] else [c])"
      by simp
    with True step c show ?thesis
      by (simp add: nat_of_digits_snoc digit_val_zero_iff)
  next
    case False
    with ds have "\<exists>x \<in> set ds. x \<noteq> CHR ''0''"
      by (simp add: nat_of_digits_zero_iff)
    then have d: "dropWhile (\<lambda>c. c = CHR ''0'') (ds @ [c]) =
                  dropWhile (\<lambda>c. c = CHR ''0'') ds @ [c]"
      by auto
    from False ds have "ds \<noteq> []"
      by (auto simp: nat_of_digits_def)
    with snoc.IH ds False have "str_nat (nat_of_digits ds) = dropWhile (\<lambda>c. c = CHR ''0'') ds"
      by simp
    with False step d show ?thesis
      by (simp add: nat_of_digits_snoc)
  qed
qed

lemma nat_of_digits_zero_Cons: "nat_of_digits (CHR ''0'' # ds) = nat_of_digits ds"
  by (simp add: nat_of_digits_def digit_val_def)

lemma takeWhile_zero_replicate:
  "replicate (length (takeWhile (\<lambda>c. c = a) xs)) a @ dropWhile (\<lambda>c. c = a) xs = xs"
  by (induction xs) simp_all

lemma all_zero_replicate: "\<forall>c \<in> set xs. c = a \<Longrightarrow> xs = replicate (length xs) a"
  by (induction xs) simp_all

lemma not_space_digit: "is_digit c \<Longrightarrow> \<not> is_space c"
  by (auto simp: is_digit_def is_space_def)

lemma dropWhile_hd: "xs \<noteq> [] \<Longrightarrow> \<not> P (hd xs) \<Longrightarrow> dropWhile P xs = xs"
  by (cases xs) simp_all

lemma strip_unchanged:
  assumes "s \<noteq> []" and "\<not> is_space (hd s)" and "\<not> is_space (last s)"
  shows "strip s = s"
proof -
  from assms have "dropWhile is_space s = s"
    by (simp add: dropWhile_hd)
  moreover from assms have "dropWhile is_space (rev s) = rev s"
    by (simp add: dropWhile_hd hd_rev)
  ultimately show ?thesis
    by (simp add: strip_def)
qed

lemma not_digit_plus: "\<not> is_digit CHR ''+''"
  by (simp add: is_digit_def)

lemma not_space_minus: "\<not> is_space CHR ''-''"
  by (simp add: is_space_def)

lemma takeWhile_all: "list_all P xs \<Longrightarrow> takeWhile P xs = xs"
  by (simp add: list_all_iff)

lemma dropWhile_all: "list_all P xs \<Longrightarrow> dropWhile P xs = []"
  by (simp add: list_all_iff)

lemma Decimal_digits:
  assumes st: "strip text = t"
    and u: "(if t \<noteq> [] \<and> (hd t = CHR ''-'' \<or> hd t = CHR ''+'') then tl t else t) = u"
    and tw: "takeWhile is_digit u = ip" and dw: "dropWhile is_digit u = r1"
    and f: "(if r1 \<noteq> [] \<and> hd r1 = CHR ''.'' then takeWhile is_digit (tl r1) else []) = fp"
    and r: "(if r1 \<noteq> [] \<and> hd r1 = CHR ''.'' then dropWhile is_digit (tl r1) else r1) = []"
    and ne: "ip \<noteq> []"
  shows "Decimal text =
         Inr (Dec (t \<noteq> [] \<and> hd t = CHR ''-'') (nat_of_digits (ip @ fp)) (- int (length fp)))"
  unfolding Decimal_def Let_def st u tw dw f r using ne by simp

lemma Decimal_plain:
  assumes ip: "ip \<noteq> []" "list_all is_digit ip" and fp: "list_all is_digit fp"
  shows "Decimal (sign_str neg @ ip @ (if fp = [] then [] else CHR ''.'' # fp)) =
         Inr (Dec neg (nat_of_digits (ip @ fp)) (- int (length fp)))"
proof -
  define r1 where "r1 = (if fp = [] then [] else CHR ''.'' # fp)"
  define body where "body = ip @ r1"
  from ip obtain c cs where c: "ip = c # cs" "is_digit c"
    by (cases ip) auto
  then have hd_body: "body = c # cs @ r1"
    by (simp add: body_def)
  from c have cm: "c \<noteq> CHR ''-''" and cp: "c \<noteq> CHR ''+''"
    using not_digit_minus not_digit_plus by auto
  have last_digit: "is_digit (last body)"
  proof (cases "fp = []")
    case True
    with ip show ?thesis
      by (simp add: body_def r1_def list_all_iff)
  next
    case False
    with fp show ?thesis
      by (simp add: body_def r1_def list_all_iff)
  qed
  have body_ne: "body \<noteq> []"
    by (simp add: hd_body)
  have r1_hd: "r1 = [] \<or> hd r1 = CHR ''.''"
    by (simp add: r1_def)
  have tw: "takeWhile is_digit body = ip"
    using ip r1_hd by (cases r1) (auto simp: body_def list_all_iff not_digit_point)
  have dw: "dropWhile is_digit body = r1"
    using ip r1_hd by (cases r1) (auto simp: body_def list_all_iff not_digit_point)
  have f: "(if r1 \<noteq> [] \<and> hd r1 = CHR ''.'' then takeWhile is_digit (tl r1) else []) = fp"
    using fp by (simp add: r1_def takeWhile_all)
  have r: "(if r1 \<noteq> [] \<and> hd r1 = CHR ''.'' then dropWhile is_digit (tl r1) else r1) = []"
    using fp by (simp add: r1_def dropWhile_all)
  have st: "strip (sign_str neg @ body) = sign_str neg @ body"
  proof (rule strip_unchanged)
    show "sign_str neg @ body \<noteq> []"
      by (simp add: hd_body)
    show "\<not> is_space (hd (sign_str neg @ body))"
      using c by (simp add: sign_str_def hd_body not_space_minus not_space_digit)
    from body_ne have "last (sign_str neg @ body) = last body"
      by simp
    with last_digit show "\<not> is_space (last (sign_str neg @ body))"
      by (simp add: not_space_digit)
  qed
  have u: "(if sign_str neg @ body \<noteq> [] \<and>
              (hd (sign_str neg @ body) = CHR ''-'' \<or> hd (sign_str neg @ body) = CHR ''+'')
           then tl (sign_str neg @ body) else sign_str neg @ body) = body"
    using cm cp by (simp add: sign_str_def hd_body)
  have n: "(sign_str neg @ body \<noteq> [] \<and> hd (sign_str neg @ body) = CHR ''-'') = neg"
    using cm by (simp add: sign_str_def hd_body)
  have "Decimal (sign_str neg @ body) =
        Inr (Dec (sign_str neg @ body \<noteq> [] \<and> hd (sign_str neg @ body) = CHR ''-'')
               (nat_of_digits (ip @ fp)) (- int (length fp)))"
    using st u tw dw f r ip(1) by (rule Decimal_digits)
  then show ?thesis
    unfolding n by (simp add: body_def r1_def)
qed

lemma str_nat_zero: "str_nat 0 = ''0''"
  by (simp add: str_nat.simps digit_char_values)

lemma dec_str_integer_part:
  assumes ip: "ip \<noteq> []" "list_all is_digit ip" "hd ip \<noteq> CHR ''0''"
    and fp: "list_all is_digit fp"
  shows "dec_str (Dec neg (nat_of_digits (ip @ fp)) (- int (length fp))) =
         sign_str neg @ ip @ (if fp = [] then [] else CHR ''.'' # fp)"
proof -
  from ip fp have d: "list_all is_digit (ip @ fp)" and ne: "ip @ fp \<noteq> []"
    by simp_all
  from ip have "hd ip \<in> set (ip @ fp)"
    by simp
  with ip(3) d have nz: "nat_of_digits (ip @ fp) \<noteq> 0"
    using nat_of_digits_zero_iff [of "ip @ fp"] by blast
  from ip have "dropWhile (\<lambda>c. c = CHR ''0'') (ip @ fp) = ip @ fp"
    by (intro dropWhile_hd) simp_all
  with d ne nz have ds: "str_nat (nat_of_digits (ip @ fp)) = ip @ fp"
    by (simp add: str_nat_nat_of_digits)
  from ip(1) have l: "0 < length ip"
    by simp
  show ?thesis
  proof (cases "fp = []")
    case True
    with l ds show ?thesis
      by (simp add: dec_str_def Let_def)
  next
    case False
    with l ds show ?thesis
      by (simp add: dec_str_def Let_def)
  qed
qed

lemma dec_str_zero:
  assumes "k < 6"
  shows "dec_str (Dec neg 0 (- int k)) =
         sign_str neg @ ''0'' @ (if k = 0 then [] else CHR ''.'' # replicate k CHR ''0'')"
proof (cases "k = 0")
  case True
  then show ?thesis
    by (simp add: dec_str_def Let_def str_nat_zero)
next
  case False
  then obtain j where j: "k = Suc j"
    by (cases k) auto
  have "replicate j CHR ''0'' @ ''0'' = replicate (Suc j) CHR ''0''"
    by (simp add: replicate_append_same)
  with assms j show ?thesis
    by (simp add: dec_str_def Let_def str_nat_zero nat_diff_distrib')
qed

lemma dec_str_leading_zeros:
  assumes "str_nat c = ds" and "zs < 6"
  shows "dec_str (Dec neg c (- int (zs + length ds))) =
         sign_str neg @ ''0'' @ CHR ''.'' # replicate zs CHR ''0'' @ ds"
  using assms by (simp add: dec_str_def Let_def)

lemma dec_str_fraction:
  assumes fp: "list_all is_digit fp" and nz: "nat_of_digits fp \<noteq> 0"
    and z: "length (takeWhile (\<lambda>c. c = CHR ''0'') fp) < 6"
  shows "dec_str (Dec neg (nat_of_digits fp) (- int (length fp))) =
         sign_str neg @ ''0'' @ CHR ''.'' # fp"
proof -
  define zs where "zs = length (takeWhile (\<lambda>c. c = CHR ''0'') fp)"
  define ds where "ds = dropWhile (\<lambda>c. c = CHR ''0'') fp"
  from nz have "fp \<noteq> []"
    by (auto simp: nat_of_digits_def)
  with fp nz have s: "str_nat (nat_of_digits fp) = ds"
    by (simp add: str_nat_nat_of_digits ds_def)
  have fp_eq: "replicate zs CHR ''0'' @ ds = fp"
    unfolding zs_def ds_def by (rule takeWhile_zero_replicate)
  then have l: "length fp = zs + length ds"
    by (metis length_append length_replicate)
  from z have z6: "zs < 6"
    by (simp add: zs_def)
  from s z6 have "dec_str (Dec neg (nat_of_digits fp) (- int (zs + length ds))) =
         sign_str neg @ ''0'' @ CHR ''.'' # replicate zs CHR ''0'' @ ds"
    by (rule dec_str_leading_zeros)
  then show ?thesis
    unfolding l [symmetric] fp_eq .
qed

text \<open>
  C10, the claim as stated, fails on a decimal string without trailing zeros:
  \<open>"0.0000001"\<close> becomes the decimal with coefficient 1 and exponent \<open>-7\<close>, and \<open>str\<close> prints
  that in scientific notation, \<open>"1E-7"\<close>.
\<close>

theorem C10_small_fraction_example:
  "typecast_decimal (Some ''0.0000001'') = Inr (Some (Dec False 1 (- 7))) \<and>
   rev_typecast_decimal (Some (Dec False 1 (- 7))) = Some ''1E-7'' \<and>
   rev_typecast_decimal (Some (Dec False 1 (- 7))) \<noteq> Some ''0.0000001''"
proof -
  have "Decimal (sign_str False @ ''0'' @ (if ''0000001'' = [] then [] else CHR ''.'' # ''0000001'')) =
        Inr (Dec False (nat_of_digits (''0'' @ ''0000001'')) (- int (length ''0000001'')))"
    by (rule Decimal_plain) (simp_all add: is_digit_def)
  then have p: "Decimal ''0.0000001'' = Inr (Dec False 1 (- 7))"
    by (simp add: sign_str_def nat_of_digits_def digit_val_def)
  have a: "typecast_decimal (Some ''0.0000001'') = Inr (Some (Dec False 1 (- 7)))"
    by (simp add: typecast_decimal_def p bind_def)
  have one: "str_nat (Suc 0) = ''1''" and seven: "str_nat 7 = ''7''"
    by (simp_all add: str_nat.simps digit_char_values)
  have b: "rev_typecast_decimal (Some (Dec False 1 (- 7))) = Some ''1E-7''"
    by (simp add: rev_typecast_decimal_def dec_str_def Let_def one seven sign_str_def)
  from a b show ?thesis by simp
qed

text \<open>
  C10, amended: text to decimal and back is the identity on plain positional text: an
  optional minus sign, an integer part that is \<open>0\<close> or starts with another digit, and
  optionally a point followed by digits, of which fewer than six zeros come directly after
  the point when the integer part is \<open>0\<close>.  Trailing zeros are kept.  \<open>"3.14"\<close> is such a text:
  it becomes the decimal with coefficient 314 and exponent \<open>-2\<close>, which prints as \<open>"3.14"\<close>.
\<close>

theorem C10_decimal_text_round_trip:
  assumes ip: "ip \<noteq> []" "list_all is_digit ip" "ip = ''0'' \<or> hd ip \<noteq> CHR ''0''"
    and fp: "list_all is_digit fp"
    and z: "ip = ''0'' \<longrightarrow> length (takeWhile (\<lambda>c. c = CHR ''0'') fp) < 6"
  shows "typecast_decimal
           (Some (sign_str neg @ ip @ (if fp = [] then [] else CHR ''.'' # fp))) =
           Inr (Some (Dec neg (nat_of_digits (ip @ fp)) (- int (length fp)))) \<and>
         rev_typecast_decimal (Some (Dec neg (nat_of_digits (ip @ fp)) (- int (length fp)))) =
           Some (sign_str neg @ ip @ (if fp = [] then [] else CHR ''.'' # fp))"
proof -
  have "Decimal (sign_str neg @ ip @ (if fp = [] then [] else CHR ''.'' # fp)) =
        Inr (Dec neg (nat_of_digits (ip @ fp)) (- int (length fp)))"
    using ip(1,2) fp by (rule Decimal_plain)
  with ip(1) have parse: "typecast_decimal
           (Some (sign_str neg @ ip @ (if fp = [] then [] else CHR ''.'' # fp))) =
           Inr (Some (Dec neg (nat_of_digits (ip @ fp)) (- int (length fp))))"
    by (simp add: typecast_decimal_def bind_def)
  have print: "dec_str (Dec neg (nat_of_digits (ip @ fp)) (- int (length fp))) =
               sign_str neg @ ip @ (if fp = [] then [] else CHR ''.'' # fp)"
  proof (cases "ip = ''0''")
    case False
    with ip have "hd ip \<noteq> CHR ''0''"
      by simp
    with ip(1,2) show ?thesis
      using fp by (rule dec_str_integer_part)
  next
    case True
    with z have z6: "length (takeWhile (\<lambda>c. c = CHR ''0'') fp) < 6"
      by simp
    from True have n: "nat_of_digits (ip @ fp) = nat_of_digits fp"
      by (simp add: nat_of_digits_zero_Cons)
    show ?thesis
    proof (cases "nat_of_digits fp = 0")
      case nz: False
      then have "fp \<noteq> []"
        by (auto simp: nat_of_digits_def)
      with nz fp z6 show ?thesis
        unfolding n using True by (simp add: dec_str_fraction)
    next
      case zero: True
      with fp have all: "\<forall>c \<in> set fp. c = CHR ''0''"
        by (simp add: nat_of_digits_zero_iff)
      then have r: "fp = replicate (length fp) CHR ''0''"
        by (rule all_zero_replicate)
      from all have "takeWhile (\<lambda>c. c = CHR ''0'') fp = fp"
        by simp
      with z6 have "length fp < 6"
        by simp
      then have "dec_str (Dec neg 0 (- int (length fp))) =
                 sign_str neg @ ''0'' @
                 (if length fp = 0 then [] else CHR ''.'' # replicate (length fp) CHR ''0'')"
        by (rule dec_str_zero)
      with r show ?thesis
        unfolding n zero using True by simp
    qed
  qed
  from parse print show ?thesis
    by (simp add: rev_typecast_decimal_def)
qed

theorem C10_three_point_fourteen:
  "typecast_decimal (Some ''3.14'') = Inr (Some (Dec False 314 (- 2))) \<and>
   rev_typecast_decimal (Some (Dec False 314 (- 2))) = Some ''3.14''"
  using C10_decimal_text_round_trip [where ip = "''3''" and fp = "''14''" and neg = False]
  by (simp add: is_digit_def sign_str_def nat_of_digits_def digit_val_def)

end
